theory Spec2Isabelle
  imports Main "HOL-Library.Word"
begin

section \<open>JavaScript values\<close>

text \<open>
  The relay (\<^verbatim>\<open>app.ws("/media-stream", ...)\<close> in \<^verbatim>\<open>src/index.js\<close>) works on the values
  that \<^verbatim>\<open>JSON.parse\<close> returns and on \<^verbatim>\<open>undefined\<close>, which reading an absent property
  yields. Objects are association lists in key order, with one entry for a key, as
  \<^verbatim>\<open>JSON.parse\<close> builds them. The relay never computes with a
  number: it only tests one for truthiness and copies it, so numbers are integers here.
\<close>

datatype jsval =
    JUndefined
  | JNull
  | JBool bool
  | JNum int
  | JStr string
  | JArr "jsval list"
  | JObj "(string \<times> jsval) list"

text \<open>The exceptions the relay can meet: \<^verbatim>\<open>SyntaxError\<close>, \<^verbatim>\<open>TypeError\<close>, and a plain \<^verbatim>\<open>Error\<close> such
  as a socket throws or reports.\<close>

datatype js_error = SyntaxError | TypeError | OtherError

text \<open>What a \<^verbatim>\<open>try\<close> block leaves behind: the state it reached, and the exception if one
  was thrown on the way.\<close>

datatype 'st completion = Normal 'st | Throw js_error 'st

fun nullish :: "jsval \<Rightarrow> bool" where
  "nullish JUndefined = True"
| "nullish JNull = True"
| "nullish _ = False"

text \<open>\<^verbatim>\<open>ToBoolean\<close>, as \<^verbatim>\<open>&&\<close> applies it to its left operand.\<close>

fun truthy :: "jsval \<Rightarrow> bool" where
  "truthy JUndefined = False"
| "truthy JNull = False"
| "truthy (JBool b) = b"
| "truthy (JNum n) = (n \<noteq> 0)"
| "truthy (JStr s) = (s \<noteq> [])"
| "truthy (JArr _) = True"
| "truthy (JObj _) = True"

text \<open>
  \<^verbatim>\<open>v.k\<close> for a receiver \<open>v\<close> that is neither \<^verbatim>\<open>null\<close> nor \<^verbatim>\<open>undefined\<close>. The names the
  relay reads (\<^verbatim>\<open>type\<close>, \<^verbatim>\<open>event\<close>, \<^verbatim>\<open>start\<close>, \<^verbatim>\<open>streamSid\<close>, \<^verbatim>\<open>media\<close>, \<^verbatim>\<open>payload\<close>,
  \<^verbatim>\<open>audio_event\<close>, \<^verbatim>\<open>audio_base_64\<close>, \<^verbatim>\<open>ping_event\<close>, \<^verbatim>\<open>event_id\<close>) are no built-in
  property of strings, numbers, booleans, arrays or \<^verbatim>\<open>Object.prototype\<close>, so only an
  object's own keys can answer.
\<close>

fun member :: "jsval \<Rightarrow> string \<Rightarrow> jsval" where
  "member (JObj kvs) k = (case map_of kvs k of None \<Rightarrow> JUndefined | Some v \<Rightarrow> v)"
| "member _ k = JUndefined"

text \<open>\<^verbatim>\<open>v?.k\<close>\<close>

definition opt_member :: "jsval \<Rightarrow> string \<Rightarrow> jsval" where
  "opt_member v k = (if nullish v then JUndefined else member v k)"

section \<open>Base64 as Node's Buffer does it\<close>

text \<open>
  \<^verbatim>\<open>Buffer.from(s, "base64")\<close> is Node's forgiving decoder: it stops at the first
  \<^verbatim>\<open>=\<close>, skips every character outside the alphabet, reads \<^verbatim>\<open>-\<close> and \<^verbatim>\<open>_\<close> as the
  URL-safe spellings of 62 and 63, and turns a trailing group of two or three
  characters into one or two bytes. \<^verbatim>\<open>buf.toString("base64")\<close> is the standard padded
  encoder.
\<close>

type_synonym byte = "8 word"

definition b64_alphabet :: string where
  "b64_alphabet = ''ABCDEFGHIJKLMNOPQRSTUVWXYZabcdefghijklmnopqrstuvwxyz0123456789+/''"

definition b64_char :: "nat \<Rightarrow> char" where
  "b64_char n = b64_alphabet ! (n mod 64)"

fun index_of :: "'a \<Rightarrow> 'a list \<Rightarrow> nat option" where
  "index_of x [] = None"
| "index_of x (y # ys) = (if x = y then Some 0 else map_option Suc (index_of x ys))"

definition unbase64 :: "char \<Rightarrow> nat option" where
  "unbase64 c =
     (if c = CHR ''-'' then Some 62
      else if c = CHR ''_'' then Some 63
      else index_of c b64_alphabet)"

fun b64_encode :: "byte list \<Rightarrow> string" where
  "b64_encode [] = []"
| "b64_encode [a] =
     [b64_char (unat a div 4), b64_char ((unat a mod 4) * 16), CHR ''='', CHR ''='']"
| "b64_encode [a, b] =
     [b64_char (unat a div 4),
      b64_char ((unat a mod 4) * 16 + unat b div 16),
      b64_char ((unat b mod 16) * 4),
      CHR ''='']"
| "b64_encode (a # b # c # rest) =
     [b64_char (unat a div 4),
      b64_char ((unat a mod 4) * 16 + unat b div 16),
      b64_char ((unat b mod 16) * 4 + unat c div 64),
      b64_char (unat c mod 64)] @ b64_encode rest"

definition b64_sextets :: "string \<Rightarrow> nat list" where
  "b64_sextets s = List.map_filter unbase64 (takeWhile (\<lambda>c. c \<noteq> CHR ''='') s)"

fun b64_bytes :: "nat list \<Rightarrow> byte list" where
  "b64_bytes (s0 # s1 # s2 # s3 # rest) =
     [of_nat (s0 * 4 + s1 div 16),
      of_nat ((s1 mod 16) * 16 + s2 div 4),
      of_nat ((s2 mod 4) * 64 + s3)] @ b64_bytes rest"
| "b64_bytes [s0, s1, s2] =
     [of_nat (s0 * 4 + s1 div 16), of_nat ((s1 mod 16) * 16 + s2 div 4)]"
| "b64_bytes [s0, s1] = [of_nat (s0 * 4 + s1 div 16)]"
| "b64_bytes _ = []"

definition b64_decode :: "string \<Rightarrow> byte list" where
  "b64_decode s = b64_bytes (b64_sextets s)"

text \<open>
  The syntax of RFC 4648, section 4: a multiple of four characters of the standard
  alphabet, the last one or two of which may be \<^verbatim>\<open>=\<close>. It does not ask for the unused
  bits before the padding to be zero.
\<close>

definition valid_base64 :: "string \<Rightarrow> bool" where
  "valid_base64 s =
     (let body = takeWhile (\<lambda>c. c \<noteq> CHR ''='') s;
          pad = dropWhile (\<lambda>c. c \<noteq> CHR ''='') s
      in length s mod 4 = 0 \<and> list_all (\<lambda>c. c \<in> set b64_alphabet) body \<and>
         (pad = [] \<or> pad = ''='' \<or> pad = ''==''))"

section \<open>The platform the relay runs on\<close>

text \<open>
  \<^verbatim>\<open>JSON.parse\<close> (\<open>None\<close> where it throws \<^verbatim>\<open>SyntaxError\<close>), \<^verbatim>\<open>JSON.stringify\<close>, the string
  conversion of a template literal (which throws \<^verbatim>\<open>TypeError\<close> on some objects) and
  \<^verbatim>\<open>Buffer.from\<close> on arrays and objects (\<open>None\<close> where it throws \<^verbatim>\<open>TypeError\<close>) are
  Node's, not the repository's: the relay takes them as they are.
\<close>

record platform =
  JSON_parse :: "string \<Rightarrow> jsval option"
  JSON_stringify :: "jsval \<Rightarrow> string"
  String_of :: "jsval \<Rightarrow> js_error + string"
  Buffer_from_object :: "jsval \<Rightarrow> byte list option"

text \<open>\<^verbatim>\<open>Buffer.from(v, "base64")\<close>: a string is decoded, a primitive that is no string is
  refused.\<close>

fun Buffer_from :: "platform \<Rightarrow> jsval \<Rightarrow> byte list option" where
  "Buffer_from p (JStr s) = Some (b64_decode s)"
| "Buffer_from p (JArr xs) = Buffer_from_object p (JArr xs)"
| "Buffer_from p (JObj kvs) = Buffer_from_object p (JObj kvs)"
| "Buffer_from p _ = None"

section \<open>The session\<close>

datatype readyState = CONNECTING | OPEN | CLOSING | CLOSED

datatype console_entry = Log string | Log_value string jsval | Error string js_error

text \<open>
  One call of the \<^verbatim>\<open>/media-stream\<close> handler: the closure variable \<^verbatim>\<open>streamSid\<close>, the two
  sockets \<^verbatim>\<open>ws\<close> (Carrier Leg) and \<^verbatim>\<open>elevenLabsWs\<close> (Agent Leg) with their
  \<^verbatim>\<open>readyState\<close>, the frames sent on each socket in order, and the console.
\<close>

record session =
  streamSid :: jsval
  ws_readyState :: readyState
  elevenLabsWs_readyState :: readyState
  ws_sent :: "string list"
  elevenLabsWs_sent :: "string list"
  console :: "console_entry list"

text \<open>
  \<^verbatim>\<open>ws.send(frame)\<close> on the carrier socket. The server hands the socket over accepted, so
  it is never \<^verbatim>\<open>CONNECTING\<close> and \<^verbatim>\<open>send\<close> does not throw; \<open>ws_sent\<close> lists the frames the
  handlers have handed to it.
\<close>

definition ws_send :: "string \<Rightarrow> session \<Rightarrow> session" where
  "ws_send frame s = s\<lparr>ws_sent := ws_sent s @ [frame]\<rparr>"

text \<open>
  \<^verbatim>\<open>elevenLabsWs.send(frame)\<close> on the agent socket, which the relay opens itself. \<^verbatim>\<open>send\<close> of
  the \<^verbatim>\<open>ws\<close> package throws an \<^verbatim>\<open>Error\<close> while the socket is \<^verbatim>\<open>CONNECTING\<close>, takes the frame
  when it is \<^verbatim>\<open>OPEN\<close>, and discards it without an exception when it is \<^verbatim>\<open>CLOSING\<close> or
  \<^verbatim>\<open>CLOSED\<close>.
\<close>

definition elevenLabsWs_send :: "string \<Rightarrow> session \<Rightarrow> session completion" where
  "elevenLabsWs_send frame s =
     (case elevenLabsWs_readyState s of
        CONNECTING \<Rightarrow> Throw OtherError s
      | OPEN \<Rightarrow> Normal (s\<lparr>elevenLabsWs_sent := elevenLabsWs_sent s @ [frame]\<rparr>)
      | CLOSING \<Rightarrow> Normal s
      | CLOSED \<Rightarrow> Normal s)"

text \<open>\<^verbatim>\<open>close()\<close> of the \<^verbatim>\<open>ws\<close> package returns at once on a closed socket and starts the
  closing handshake on any other.\<close>

fun close_readyState :: "readyState \<Rightarrow> readyState" where
  "close_readyState CLOSED = CLOSED"
| "close_readyState _ = CLOSING"

definition elevenLabsWs_close :: "session \<Rightarrow> session" where
  "elevenLabsWs_close s =
     s\<lparr>elevenLabsWs_readyState := close_readyState (elevenLabsWs_readyState s)\<rparr>"

definition console_log :: "string \<Rightarrow> session \<Rightarrow> session" where
  "console_log text s = s\<lparr>console := console s @ [Log text]\<rparr>"

definition console_error :: "string \<Rightarrow> js_error \<Rightarrow> session \<Rightarrow> session" where
  "console_error text err s = s\<lparr>console := console s @ [Error text err]\<rparr>"

text \<open>The body of \<^verbatim>\<open>app.ws("/media-stream", (ws, req) => ...)\<close> up to the registration of
  the handlers: the carrier socket is accepted and open, the agent socket is being
  connected.\<close>

definition media_stream :: session where
  "media_stream =
     \<lparr>streamSid = JNull,
      ws_readyState = OPEN,
      elevenLabsWs_readyState = CONNECTING,
      ws_sent = [],
      elevenLabsWs_sent = [],
      console = [Log ''[Server] Twilio connected to media stream.'']\<rparr>"

section \<open>The handlers\<close>

subsection \<open>Agent Leg\<close>

text \<open>\<^verbatim>\<open>elevenLabsWs.on("open" | "close" | "error", ...)\<close>: each writes one line.\<close>

definition on_elevenLabsWs_open :: "session \<Rightarrow> session" where
  "on_elevenLabsWs_open s = console_log ''[II] Connected to ElevenLabs'' s"

definition on_elevenLabsWs_close :: "session \<Rightarrow> session" where
  "on_elevenLabsWs_close s = console_log ''[II] Disconnected'' s"

definition on_elevenLabsWs_error :: "js_error \<Rightarrow> session \<Rightarrow> session" where
  "on_elevenLabsWs_error err s = console_error ''[II] Error:'' err s"

text \<open>The \<^verbatim>\<open>try\<close> block of \<^verbatim>\<open>elevenLabsWs.on("message", ...)\<close>. Reading \<^verbatim>\<open>message.type\<close>
  throws on \<^verbatim>\<open>null\<close>; after it \<^verbatim>\<open>message\<close> is known to have properties.\<close>

definition elevenLabsWs_message_try :: "platform \<Rightarrow> session \<Rightarrow> string \<Rightarrow> session completion" where
  "elevenLabsWs_message_try p s data =
     (case JSON_parse p data of
        None \<Rightarrow> Throw SyntaxError s
      | Some message \<Rightarrow>
          if nullish message then Throw TypeError s
          else if member message ''type'' = JStr ''audio'' \<and>
                  truthy (opt_member (member message ''audio_event'') ''audio_base_64'') then
            Normal (ws_send
              (JSON_stringify p (JObj
                 [(''event'', JStr ''media''),
                  (''streamSid'', streamSid s),
                  (''media'', JObj
                     [(''payload'', member (member message ''audio_event'') ''audio_base_64'')])]))
              s)
          else if member message ''type'' = JStr ''interruption'' then
            Normal (ws_send
              (JSON_stringify p (JObj
                 [(''event'', JStr ''clear''), (''streamSid'', streamSid s)]))
              s)
          else if member message ''type'' = JStr ''ping'' \<and>
                  truthy (opt_member (member message ''ping_event'') ''event_id'') then
            elevenLabsWs_send
              (JSON_stringify p (JObj
                 [(''type'', JStr ''pong''),
                  (''event_id'', member (member message ''ping_event'') ''event_id'')]))
              s
          else Normal s)"

definition on_elevenLabsWs_message :: "platform \<Rightarrow> session \<Rightarrow> string \<Rightarrow> session" where
  "on_elevenLabsWs_message p s data =
     (case elevenLabsWs_message_try p s data of
        Normal s' \<Rightarrow> s'
      | Throw err s' \<Rightarrow> console_error ''[II] Parse error:'' err s')"

subsection \<open>Carrier Leg\<close>

text \<open>The \<^verbatim>\<open>try\<close> block of \<^verbatim>\<open>ws.on("message", ...)\<close>. In the \<^verbatim>\<open>start\<close> branch the assignment
  to \<^verbatim>\<open>streamSid\<close> comes before the template literal of the log line, so it stays when
  the conversion throws.\<close>

definition ws_message_try :: "platform \<Rightarrow> session \<Rightarrow> string \<Rightarrow> session completion" where
  "ws_message_try p s msg =
     (case JSON_parse p msg of
        None \<Rightarrow> Throw SyntaxError s
      | Some data \<Rightarrow>
          if nullish data then Throw TypeError s
          else if member data ''event'' = JStr ''start'' then
            (if nullish (member data ''start'') then Throw TypeError s
             else
               let s1 = s\<lparr>streamSid := member (member data ''start'') ''streamSid''\<rparr> in
               (case String_of p (streamSid s1) of
                  Inl err \<Rightarrow> Throw err s1
                | Inr text \<Rightarrow> Normal (console_log (''[Twilio] Stream started: '' @ text) s1)))
          else if member data ''event'' = JStr ''media'' \<and> elevenLabsWs_readyState s = OPEN then
            (if nullish (member data ''media'') then Throw TypeError s
             else
               (case Buffer_from p (member (member data ''media'') ''payload'') of
                  None \<Rightarrow> Throw TypeError s
                | Some buf \<Rightarrow>
                    elevenLabsWs_send
                      (JSON_stringify p (JObj [(''user_audio_chunk'', JStr (b64_encode buf))]))
                      s))
          else if member data ''event'' = JStr ''stop'' then Normal (elevenLabsWs_close s)
          else Normal s)"

definition on_ws_message :: "platform \<Rightarrow> session \<Rightarrow> string \<Rightarrow> session" where
  "on_ws_message p s msg =
     (case ws_message_try p s msg of
        Normal s' \<Rightarrow> s'
      | Throw err s' \<Rightarrow> console_error ''[Twilio] Error:'' err s')"

text \<open>\<^verbatim>\<open>ws.on("close", () => elevenLabsWs.close())\<close>\<close>

definition on_ws_close :: "session \<Rightarrow> session" where
  "on_ws_close s = elevenLabsWs_close s"

subsection \<open>The \<^verbatim>\<open>switch\<close> variant\<close>

text \<open>The first copy of the relay in \<^verbatim>\<open>src/unnamed/part_000\<close> writes both message handlers
  as a \<^verbatim>\<open>switch\<close>: the carrier's on \<^verbatim>\<open>data.event\<close>, with the \<^verbatim>\<open>readyState\<close> test inside the
  \<^verbatim>\<open>media\<close> case, the agent's on \<^verbatim>\<open>message.type\<close>, with a \<^verbatim>\<open>default\<close> case that logs the
  type it does not handle. The second copy is the text of \<^verbatim>\<open>src/index.js\<close>.\<close>

definition ws_message_switch_try :: "platform \<Rightarrow> session \<Rightarrow> string \<Rightarrow> session completion" where
  "ws_message_switch_try p s msg =
     (case JSON_parse p msg of
        None \<Rightarrow> Throw SyntaxError s
      | Some data \<Rightarrow>
          if nullish data then Throw TypeError s
          else if member data ''event'' = JStr ''start'' then
            (if nullish (member data ''start'') then Throw TypeError s
             else
               let s1 = s\<lparr>streamSid := member (member data ''start'') ''streamSid''\<rparr> in
               (case String_of p (streamSid s1) of
                  Inl err \<Rightarrow> Throw err s1
                | Inr text \<Rightarrow> Normal (console_log (''[Twilio] Stream started: '' @ text) s1)))
          else if member data ''event'' = JStr ''media'' then
            (if elevenLabsWs_readyState s = OPEN then
               (if nullish (member data ''media'') then Throw TypeError s
                else
                  (case Buffer_from p (member (member data ''media'') ''payload'') of
                     None \<Rightarrow> Throw TypeError s
                   | Some buf \<Rightarrow>
                       elevenLabsWs_send
                         (JSON_stringify p (JObj [(''user_audio_chunk'', JStr (b64_encode buf))]))
                         s))
             else Normal s)
          else if member data ''event'' = JStr ''stop'' then Normal (elevenLabsWs_close s)
          else Normal s)"

definition on_ws_message_switch :: "platform \<Rightarrow> session \<Rightarrow> string \<Rightarrow> session" where
  "on_ws_message_switch p s msg =
     (case ws_message_switch_try p s msg of
        Normal s' \<Rightarrow> s'
      | Throw err s' \<Rightarrow> console_error ''[Twilio] Error:'' err s')"

definition elevenLabsWs_message_switch_try ::
  "platform \<Rightarrow> session \<Rightarrow> string \<Rightarrow> session completion" where
  "elevenLabsWs_message_switch_try p s data =
     (case JSON_parse p data of
        None \<Rightarrow> Throw SyntaxError s
      | Some message \<Rightarrow>
          if nullish message then Throw TypeError s
          else if member message ''type'' = JStr ''audio'' then
            (if truthy (opt_member (member message ''audio_event'') ''audio_base_64'') then
               Normal (ws_send
                 (JSON_stringify p (JObj
                    [(''event'', JStr ''media''),
                     (''streamSid'', streamSid s),
                     (''media'', JObj
                        [(''payload'',
                          member (member message ''audio_event'') ''audio_base_64'')])]))
                 s)
             else Normal s)
          else if member message ''type'' = JStr ''interruption'' then
            Normal (ws_send
              (JSON_stringify p (JObj
                 [(''event'', JStr ''clear''), (''streamSid'', streamSid s)]))
              s)
          else if member message ''type'' = JStr ''ping'' then
            (if truthy (opt_member (member message ''ping_event'') ''event_id'') then
               elevenLabsWs_send
                 (JSON_stringify p (JObj
                    [(''type'', JStr ''pong''),
                     (''event_id'', member (member message ''ping_event'') ''event_id'')]))
                 s
             else Normal s)
          else
            Normal (s\<lparr>console := console s @
              [Log_value ''[II] Unhandled:'' (member message ''type'')]\<rparr>))"

definition on_elevenLabsWs_message_switch :: "platform \<Rightarrow> session \<Rightarrow> string \<Rightarrow> session" where
  "on_elevenLabsWs_message_switch p s data =
     (case elevenLabsWs_message_switch_try p s data of
        Normal s' \<Rightarrow> s'
      | Throw err s' \<Rightarrow> console_error ''[II] Parse error:'' err s')"

section \<open>Runs of a session\<close>

text \<open>
  The events the two sockets emit. The \<^verbatim>\<open>ws\<close> package has set the socket's
  \<^verbatim>\<open>readyState\<close> to \<^verbatim>\<open>OPEN\<close> before it emits \<^verbatim>\<open>open\<close>, to \<^verbatim>\<open>CLOSING\<close> before it emits
  \<^verbatim>\<open>error\<close> and to \<^verbatim>\<open>CLOSED\<close> before it emits \<^verbatim>\<open>close\<close>, and it emits \<^verbatim>\<open>message\<close> only
  between the two, while the socket is \<^verbatim>\<open>OPEN\<close> or \<^verbatim>\<open>CLOSING\<close>: a message for a socket in
  another state does not reach its handler. The carrier socket has no handler for
  \<^verbatim>\<open>error\<close> and none for \<^verbatim>\<open>open\<close>. Each handler runs to its end before the next event
  is delivered.
\<close>

datatype event =
    Carrier_message string
  | Carrier_close
  | Agent_open
  | Agent_message string
  | Agent_error js_error
  | Agent_close

fun emits_message :: "readyState \<Rightarrow> bool" where
  "emits_message OPEN = True"
| "emits_message CLOSING = True"
| "emits_message _ = False"

fun deliver :: "platform \<Rightarrow> session \<Rightarrow> event \<Rightarrow> session" where
  "deliver p s (Carrier_message msg) =
     (if emits_message (ws_readyState s) then on_ws_message p s msg else s)"
| "deliver p s Carrier_close = on_ws_close (s\<lparr>ws_readyState := CLOSED\<rparr>)"
| "deliver p s Agent_open = on_elevenLabsWs_open (s\<lparr>elevenLabsWs_readyState := OPEN\<rparr>)"
| "deliver p s (Agent_message data) =
     (if emits_message (elevenLabsWs_readyState s) then on_elevenLabsWs_message p s data else s)"
| "deliver p s (Agent_error err) =
     on_elevenLabsWs_error err (s\<lparr>elevenLabsWs_readyState := CLOSING\<rparr>)"
| "deliver p s Agent_close = on_elevenLabsWs_close (s\<lparr>elevenLabsWs_readyState := CLOSED\<rparr>)"

definition run :: "platform \<Rightarrow> session \<Rightarrow> event list \<Rightarrow> session" where
  "run p s evs = foldl (deliver p) s evs"

text \<open>What the two peers can see of a session: everything but the console.\<close>

definition relay_state ::
  "session \<Rightarrow> jsval \<times> readyState \<times> readyState \<times> string list \<times> string list" where
  "relay_state s =
     (streamSid s, ws_readyState s, elevenLabsWs_readyState s, ws_sent s, elevenLabsWs_sent s)"

text \<open>A carrier frame that parses and is tagged \<^verbatim>\<open>start\<close>.\<close>

fun is_start_frame :: "platform \<Rightarrow> event \<Rightarrow> bool" where
  "is_start_frame p (Carrier_message msg) =
     (case JSON_parse p msg of
        None \<Rightarrow> False
      | Some data \<Rightarrow> member data ''event'' = JStr ''start'')"
| "is_start_frame p _ = False"

section \<open>Concrete frames\<close>

text \<open>
  A finite part of the platform, enough to run the relay on the frames below: the
  values of \<^verbatim>\<open>JSON.parse\<close> on ten texts (every other text counts as malformed), of
  \<^verbatim>\<open>JSON.stringify\<close> on the frames the relay answers them with (every other value
  counts as the empty text), and the string conversion of a template literal.
\<close>

definition sample_parse :: "string \<Rightarrow> jsval option" where
  \<open>sample_parse = map_of
     [(''{"event":"start","start":{"streamSid":"MZ1"}}'',
         JObj [(''event'', JStr ''start''), (''start'', JObj [(''streamSid'', JStr ''MZ1'')])]),
      (''{"event":"start","start":{"streamSid":"MZ2"}}'',
         JObj [(''event'', JStr ''start''), (''start'', JObj [(''streamSid'', JStr ''MZ2'')])]),
      (''{"event":"start"}'',
         JObj [(''event'', JStr ''start'')]),
      (''{"event":"media","media":{"payload":"QUI="}}'',
         JObj [(''event'', JStr ''media''), (''media'', JObj [(''payload'', JStr ''QUI='')])]),
      (''{"event":"media","media":{"payload":"QUJ="}}'',
         JObj [(''event'', JStr ''media''), (''media'', JObj [(''payload'', JStr ''QUJ='')])]),
      (''{"event":"stop"}'',
         JObj [(''event'', JStr ''stop'')]),
      (''{"type":"audio","audio_event":{"audio_base_64":"QUI="}}'',
         JObj [(''type'', JStr ''audio''),
               (''audio_event'', JObj [(''audio_base_64'', JStr ''QUI='')])]),
      (''{"type":"interruption"}'',
         JObj [(''type'', JStr ''interruption'')]),
      (''{"type":"ping","ping_event":{"event_id":"x"}}'',
         JObj [(''type'', JStr ''ping''), (''ping_event'', JObj [(''event_id'', JStr ''x'')])]),
      (''{"type":"ping","ping_event":{"event_id":""}}'',
         JObj [(''type'', JStr ''ping''), (''ping_event'', JObj [(''event_id'', JStr [])])])]\<close>

definition sample_stringify :: "jsval \<Rightarrow> string" where
  \<open>sample_stringify v =
     (case map_of
        [(JObj [(''user_audio_chunk'', JStr ''QUI='')],
            ''{"user_audio_chunk":"QUI="}''),
         (JObj [(''user_audio_chunk'', JStr ''QUJ='')],
            ''{"user_audio_chunk":"QUJ="}''),
         (JObj [(''event'', JStr ''media''), (''streamSid'', JStr ''MZ1''),
                (''media'', JObj [(''payload'', JStr ''QUI='')])],
            ''{"event":"media","streamSid":"MZ1","media":{"payload":"QUI="}}''),
         (JObj [(''event'', JStr ''clear''), (''streamSid'', JNull)],
            ''{"event":"clear","streamSid":null}''),
         (JObj [(''event'', JStr ''clear''), (''streamSid'', JStr ''MZ1'')],
            ''{"event":"clear","streamSid":"MZ1"}''),
         (JObj [(''type'', JStr ''pong''), (''event_id'', JStr ''x'')],
            ''{"type":"pong","event_id":"x"}'')] v of
        None \<Rightarrow> []
      | Some text \<Rightarrow> text)\<close>

text \<open>
  The string conversion: a primitive is written out (an integer in decimal, as Node
  writes those below \<^verbatim>\<open>1e21\<close> in magnitude), an array is its elements' conversions
  joined by commas, with nothing for \<^verbatim>\<open>null\<close> and \<^verbatim>\<open>undefined\<close>, and an object is
  \<^verbatim>\<open>[object Object]\<close>, unless it has a key \<^verbatim>\<open>toString\<close> of its own: what \<^verbatim>\<open>JSON.parse\<close> put
  there is no function, and the conversion throws \<^verbatim>\<open>TypeError\<close>.
\<close>

fun decimal :: "nat \<Rightarrow> string" where
  "decimal n =
     (if n < 10 then [''0123456789'' ! n]
      else decimal (n div 10) @ [''0123456789'' ! (n mod 10)])"

declare decimal.simps [simp del]

definition number_text :: "int \<Rightarrow> string" where
  "number_text n = (if n < 0 then CHR ''-'' # decimal (nat (- n)) else decimal (nat n))"

fun sample_String_of :: "jsval \<Rightarrow> js_error + string"
  and sample_join :: "jsval list \<Rightarrow> js_error + string" where
  "sample_String_of JUndefined = Inr ''undefined''"
| "sample_String_of JNull = Inr ''null''"
| "sample_String_of (JBool b) = Inr (if b then ''true'' else ''false'')"
| "sample_String_of (JNum n) = Inr (number_text n)"
| "sample_String_of (JStr s) = Inr s"
| "sample_String_of (JArr xs) = sample_join xs"
| "sample_String_of (JObj kvs) =
     (if ''toString'' \<in> set (map fst kvs) then Inl TypeError else Inr ''[object Object]'')"
| "sample_join [] = Inr []"
| "sample_join (x # xs) =
     (case (if nullish x then Inr [] else sample_String_of x) of
        Inl err \<Rightarrow> Inl err
      | Inr text \<Rightarrow>
          (if xs = [] then Inr text
           else
             (case sample_join xs of
                Inl err \<Rightarrow> Inl err
              | Inr rest \<Rightarrow> Inr (text @ '','' @ rest))))"

definition sample_platform :: platform where
  "sample_platform =
     \<lparr>JSON_parse = sample_parse,
      JSON_stringify = sample_stringify,
      String_of = sample_String_of,
      Buffer_from_object = (\<lambda>v. None)\<rparr>"

text \<open>The session once the agent socket has opened.\<close>

definition streaming :: session where
  "streaming = media_stream\<lparr>elevenLabsWs_readyState := OPEN\<rparr>"

section \<open>Base64 round trip\<close>

lemma b64_table:
  "\<forall>n\<in>set [0..<64]. unbase64 (b64_char n) = Some n \<and> b64_char n \<noteq> CHR ''=''"
  by code_simp

lemma unbase64_b64_char: "n < 64 \<Longrightarrow> unbase64 (b64_char n) = Some n"
  using b64_table by simp

lemma b64_char_not_pad: "n < 64 \<Longrightarrow> b64_char n \<noteq> CHR ''=''"
  using b64_table by simp

lemma b64_sextets_Cons:
  "n < 64 \<Longrightarrow> b64_sextets (b64_char n # cs) = n # b64_sextets cs"
  by (simp add: b64_sextets_def List.map_filter_simps unbase64_b64_char b64_char_not_pad)

lemma b64_sextets_pad: "b64_sextets (CHR ''='' # cs) = []"
  by (simp add: b64_sextets_def List.map_filter_simps)

lemma b64_sextets_Nil: "b64_sextets [] = []"
  by (simp add: b64_sextets_def List.map_filter_simps)

lemma byte_lt: "unat (a :: byte) < 256"
  using unsigned_less [of a, where 'a = nat] by simp

text \<open>The three bytes of a group come back from its four sextets.\<close>

lemma join1:
  fixes a b :: byte
  shows "of_nat (unat a div 4 * 4 + (unat a mod 4 * 16 + unat b div 16) div 16) = a"
proof -
  have "unat b div 16 < 16" using byte_lt [of b] by simp
  then have "unat a div 4 * 4 + (unat a mod 4 * 16 + unat b div 16) div 16 = unat a"
    by simp
  then show ?thesis by (simp only: of_nat_unat unsigned_word_eqI ucast_id)
qed

lemma join1z:
  fixes a :: byte
  shows "of_nat (unat a div 4 * 4 + (unat a mod 4 * 16) div 16) = a"
proof -
  have "unat a div 4 * 4 + (unat a mod 4 * 16) div 16 = unat a"
    by simp
  then show ?thesis by (simp only: of_nat_unat unsigned_word_eqI ucast_id)
qed

lemma join2:
  fixes a b c :: byte
  shows "of_nat ((unat a mod 4 * 16 + unat b div 16) mod 16 * 16 +
                 (unat b mod 16 * 4 + unat c div 64) div 4) = b"
proof -
  have c: "unat c div 64 < 4" using byte_lt [of c] by simp
  have b: "unat b div 16 < 16" using byte_lt [of b] by simp
  have "(unat a mod 4 * 16 + unat b div 16) mod 16 = unat b div 16" using b by simp
  moreover have "(unat b mod 16 * 4 + unat c div 64) div 4 = unat b mod 16" using c by simp
  ultimately have "(unat a mod 4 * 16 + unat b div 16) mod 16 * 16 +
                 (unat b mod 16 * 4 + unat c div 64) div 4 = unat b" by simp
  then show ?thesis by (simp only: of_nat_unat unsigned_word_eqI ucast_id)
qed

lemma join2z:
  fixes a b :: byte
  shows "of_nat ((unat a mod 4 * 16 + unat b div 16) mod 16 * 16 + (unat b mod 16 * 4) div 4) = b"
proof -
  have b: "unat b div 16 < 16" using byte_lt [of b] by simp
  have "(unat a mod 4 * 16 + unat b div 16) mod 16 = unat b div 16" using b by simp
  then have "(unat a mod 4 * 16 + unat b div 16) mod 16 * 16 + (unat b mod 16 * 4) div 4 = unat b"
    by simp
  then show ?thesis by (simp only: of_nat_unat unsigned_word_eqI ucast_id)
qed

lemma join3:
  fixes b c :: byte
  shows "of_nat ((unat b mod 16 * 4 + unat c div 64) mod 4 * 64 + unat c mod 64) = c"
proof -
  have c: "unat c div 64 < 4" using byte_lt [of c] by simp
  have "(unat b mod 16 * 4 + unat c div 64) mod 4 = unat c div 64" using c by simp
  then have "(unat b mod 16 * 4 + unat c div 64) mod 4 * 64 + unat c mod 64 = unat c"
    by simp
  then show ?thesis by (simp only: of_nat_unat unsigned_word_eqI ucast_id)
qed

lemma sextet_bounds:
  fixes a b c :: byte
  shows "unat a div 4 < 64"
    and "unat a mod 4 * 16 < 64"
    and "unat a mod 4 * 16 + unat b div 16 < 64"
    and "unat b mod 16 * 4 < 64"
    and "unat b mod 16 * 4 + unat c div 64 < 64"
    and "unat c mod 64 < 64"
  using byte_lt [of a] byte_lt [of b] byte_lt [of c] by simp_all

text \<open>Decoding what the encoder wrote gives the bytes back, so re-encoding a canonical
  text is the identity.\<close>

lemma b64_decode_encode: "b64_decode (b64_encode bs) = bs"
proof (induction bs rule: b64_encode.induct)
  case 1
  show ?case by (simp add: b64_decode_def b64_sextets_Nil)
next
  case (2 a)
  have "b64_sextets (b64_encode [a]) = [unat a div 4, unat a mod 4 * 16]"
    by (simp only: b64_encode.simps b64_sextets_Cons b64_sextets_pad sextet_bounds)
  then show ?case
    by (simp only: b64_decode_def b64_bytes.simps join1z)
next
  case (3 a b)
  have "b64_sextets (b64_encode [a, b]) =
        [unat a div 4, unat a mod 4 * 16 + unat b div 16, unat b mod 16 * 4]"
    by (simp only: b64_encode.simps b64_sextets_Cons b64_sextets_pad sextet_bounds)
  then show ?case
    by (simp only: b64_decode_def b64_bytes.simps join1 join2z)
next
  case (4 a b c rest)
  have "b64_sextets (b64_encode (a # b # c # rest)) =
        unat a div 4 # (unat a mod 4 * 16 + unat b div 16) #
        (unat b mod 16 * 4 + unat c div 64) # unat c mod 64 # b64_sextets (b64_encode rest)"
    by (simp only: b64_encode.simps append.simps b64_sextets_Cons sextet_bounds)
  then have "b64_decode (b64_encode (a # b # c # rest)) = [a, b, c] @ b64_decode (b64_encode rest)"
    by (simp only: b64_decode_def b64_bytes.simps join1 join2 join3)
  with 4 show ?case by simp
qed

lemma b64_encode_AB: "b64_encode [65, 66] = ''QUI=''"
  by (simp add: b64_char_def b64_alphabet_def)

section \<open>Facts about the handlers\<close>

lemma member_JStr_not_nullish: "member v k = JStr x \<Longrightarrow> \<not> nullish v"
  by (cases v) simp_all

lemma member_JStr_opt: "member v k = JStr x \<Longrightarrow> opt_member v k = JStr x"
  by (cases v) (simp_all add: opt_member_def)

text \<open>The \<^verbatim>\<open>switch\<close> variant of the carrier handler does what the \<^verbatim>\<open>if\<close> chain does.\<close>

lemma ws_message_switch_try_eq: "ws_message_switch_try p s msg = ws_message_try p s msg"
  by (simp add: ws_message_switch_try_def ws_message_try_def split: option.splits)

lemma on_ws_message_switch_eq: "on_ws_message_switch p s msg = on_ws_message p s msg"
  by (simp add: on_ws_message_switch_def on_ws_message_def ws_message_switch_try_eq)

text \<open>The \<^verbatim>\<open>switch\<close> variant of the agent handler sends what the \<^verbatim>\<open>if\<close> chain sends; it
  differs by the line its \<^verbatim>\<open>default\<close> case logs.\<close>

lemma on_elevenLabsWs_message_switch_relay:
  "relay_state (on_elevenLabsWs_message_switch p s data) =
   relay_state (on_elevenLabsWs_message p s data)"
  by (simp add: relay_state_def on_elevenLabsWs_message_switch_def on_elevenLabsWs_message_def
      elevenLabsWs_message_switch_try_def elevenLabsWs_message_try_def console_error_def
      ws_send_def split: option.splits)

text \<open>A \<^verbatim>\<open>media\<close> frame with a string payload, agent socket open: the chunk sent is the
  re-encoding of what the decoder reads from the payload.\<close>

lemma ws_message_try_media:
  assumes "JSON_parse p msg = Some data"
    and "member data ''event'' = JStr ''media''"
    and "member (member data ''media'') ''payload'' = JStr P"
    and "elevenLabsWs_readyState s = OPEN"
  shows "ws_message_try p s msg =
         Normal (s\<lparr>elevenLabsWs_sent := elevenLabsWs_sent s @
           [JSON_stringify p (JObj [(''user_audio_chunk'', JStr (b64_encode (b64_decode P)))])]\<rparr>)"
proof -
  from assms(2) have d: "\<not> nullish data" by (rule member_JStr_not_nullish)
  from assms(3) have m: "\<not> nullish (member data ''media'')" by (rule member_JStr_not_nullish)
  from assms d m show ?thesis
    by (simp add: ws_message_try_def elevenLabsWs_send_def)
qed

lemma close_readyState_closed: "close_readyState r \<in> {CLOSING, CLOSED}"
  by (cases r) simp_all

lemma close_readyState_idem: "close_readyState (close_readyState r) = close_readyState r"
  by (cases r) simp_all

lemma close_readyState_noop: "r \<in> {CLOSING, CLOSED} \<Longrightarrow> close_readyState r = r"
  by (cases r) simp_all

section \<open>Termination of a session\<close>

text \<open>
  C1, as the code has it. When the Carrier Leg closes, its handler calls \<^verbatim>\<open>close()\<close> on the
  Agent Leg, which is then closing or closed; the call is idempotent, and on an Agent
  Leg that is already closing or closed it changes nothing. The Agent Leg's own
  \<^verbatim>\<open>close\<close> event is only logged: it leaves the Carrier Leg's \<^verbatim>\<open>readyState\<close> as it was.
\<close>

theorem close_propagation:
  "elevenLabsWs_readyState (deliver p s Carrier_close) \<in> {CLOSING, CLOSED} \<and>
   on_ws_close (on_ws_close s) = on_ws_close s \<and>
   (elevenLabsWs_readyState s \<in> {CLOSING, CLOSED} \<longrightarrow> on_ws_close s = s) \<and>
   ws_readyState (deliver p s Agent_close) = ws_readyState s"
  using close_readyState_closed [of "elevenLabsWs_readyState s"]
  by (auto simp add: on_ws_close_def elevenLabsWs_close_def close_readyState_idem
      close_readyState_noop on_elevenLabsWs_close_def console_log_def)

theorem close_propagation_witness:
  "elevenLabsWs_readyState (on_ws_close streaming) = CLOSING \<and>
   elevenLabsWs_readyState (on_ws_close streaming) \<in> {CLOSING, CLOSED} \<and>
   on_ws_close (on_ws_close streaming) = on_ws_close streaming"
  using close_propagation [of sample_platform "on_ws_close streaming"]
  by (simp add: on_ws_close_def elevenLabsWs_close_def streaming_def media_stream_def)

text \<open>
  C1 as stated asks for the reverse direction too. After the agent socket has opened
  and closed, the carrier socket is still open: nothing has called \<^verbatim>\<open>ws.close()\<close>.
\<close>

theorem agent_close_counterexample:
  "ws_readyState (run sample_platform media_stream [Agent_open, Agent_close]) = OPEN \<and>
   elevenLabsWs_readyState (run sample_platform media_stream [Agent_open, Agent_close]) = CLOSED"
  by (simp add: run_def on_elevenLabsWs_open_def on_elevenLabsWs_close_def console_log_def
      media_stream_def)

section \<open>Carrier to agent\<close>

text \<open>
  C2, as the code has it. The handler decodes the payload and encodes it again. For a
  canonical base64 text \<open>P\<close>, one that the encoder writes for some byte sequence, a
  \<^verbatim>\<open>media\<close> frame with payload \<open>P\<close> handled while the Agent Leg is \<^verbatim>\<open>OPEN\<close> sends exactly one
  agent-bound frame, \<^verbatim>\<open>{user_audio_chunk: P}\<close>, and changes nothing else; both variants of
  the handler agree.
\<close>

theorem media_canonical_passthrough:
  assumes "JSON_parse p msg = Some data"
    and "member data ''event'' = JStr ''media''"
    and "member (member data ''media'') ''payload'' = JStr P"
    and "P = b64_encode bytes"
    and "elevenLabsWs_readyState s = OPEN"
  shows "on_ws_message p s msg =
           s\<lparr>elevenLabsWs_sent := elevenLabsWs_sent s @
                [JSON_stringify p (JObj [(''user_audio_chunk'', JStr P)])]\<rparr> \<and>
         on_ws_message_switch p s msg = on_ws_message p s msg"
  using ws_message_try_media [OF assms(1) assms(2) assms(3) assms(5)] assms(4)
  by (simp add: on_ws_message_def b64_decode_encode on_ws_message_switch_eq)

theorem media_canonical_passthrough_witness:
  \<open>JSON_parse sample_platform ''{"event":"media","media":{"payload":"QUI="}}'' =
     Some (JObj [(''event'', JStr ''media''), (''media'', JObj [(''payload'', JStr ''QUI='')])]) \<and>
   ''QUI='' = b64_encode [65, 66] \<and>
   elevenLabsWs_readyState streaming = OPEN \<and>
   elevenLabsWs_sent
     (on_ws_message sample_platform streaming ''{"event":"media","media":{"payload":"QUI="}}'') =
   [''{"user_audio_chunk":"QUI="}'']\<close>
proof -
  have parse: \<open>JSON_parse sample_platform ''{"event":"media","media":{"payload":"QUI="}}'' =
     Some (JObj [(''event'', JStr ''media''), (''media'', JObj [(''payload'', JStr ''QUI='')])])\<close>
    by (simp add: sample_platform_def sample_parse_def)
  have enc: "''QUI='' = b64_encode [65, 66]"
    by (simp only: b64_encode_AB)
  have opn: "elevenLabsWs_readyState streaming = OPEN"
    by (simp add: streaming_def)
  have str: \<open>JSON_stringify sample_platform (JObj [(''user_audio_chunk'', JStr ''QUI='')]) =
      ''{"user_audio_chunk":"QUI="}''\<close>
    by (simp add: sample_platform_def sample_stringify_def)
  from media_canonical_passthrough [OF parse _ _ enc opn] str parse enc opn show ?thesis
    by (simp add: streaming_def media_stream_def)
qed

text \<open>
  C2 as stated speaks of every valid base64 string. \<^verbatim>\<open>QUJ=\<close> is four characters of the
  alphabet with one pad and decodes to the bytes of \<^verbatim>\<open>AB\<close>, but the encoder writes \<^verbatim>\<open>QUI=\<close>
  for them: the chunk sent is not the payload received.
\<close>

theorem media_reencoded_counterexample:
  \<open>valid_base64 ''QUJ='' \<and>
   elevenLabsWs_sent
     (on_ws_message sample_platform streaming ''{"event":"media","media":{"payload":"QUJ="}}'') =
   [''{"user_audio_chunk":"QUI="}''] \<and>
   elevenLabsWs_sent
     (on_ws_message sample_platform streaming ''{"event":"media","media":{"payload":"QUJ="}}'') \<noteq>
   [JSON_stringify sample_platform (JObj [(''user_audio_chunk'', JStr ''QUJ='')])]\<close>
  by (simp add: valid_base64_def on_ws_message_def ws_message_try_def sample_platform_def
      sample_parse_def sample_stringify_def
      streaming_def media_stream_def elevenLabsWs_send_def b64_decode_def b64_sextets_def
      List.map_filter_simps unbase64_def b64_alphabet_def b64_char_def)

section \<open>The stream identifier\<close>

text \<open>Only the \<^verbatim>\<open>start\<close> branch of the carrier handler assigns \<^verbatim>\<open>streamSid\<close>.\<close>

lemma streamSid_deliver_other:
  "\<not> is_start_frame p ev \<Longrightarrow> streamSid (deliver p s ev) = streamSid s"
proof (cases ev)
  case (Carrier_message msg)
  assume "\<not> is_start_frame p ev"
  with Carrier_message show ?thesis
    by (auto simp add: on_ws_message_def ws_message_try_def console_error_def
        elevenLabsWs_send_def elevenLabsWs_close_def split: option.splits readyState.splits)
next
  case (Agent_message data)
  then show ?thesis
    by (auto simp add: on_elevenLabsWs_message_def elevenLabsWs_message_try_def console_error_def
        elevenLabsWs_send_def ws_send_def split: option.splits readyState.splits)
qed (simp_all add: on_ws_close_def elevenLabsWs_close_def on_elevenLabsWs_open_def
      on_elevenLabsWs_close_def on_elevenLabsWs_error_def console_log_def console_error_def)

lemma streamSid_run_other:
  "\<forall>ev\<in>set evs. \<not> is_start_frame p ev \<Longrightarrow> streamSid (run p s evs) = streamSid s"
  unfolding run_def
  by (induction evs arbitrary: s) (simp_all add: streamSid_deliver_other)

lemma streamSid_start:
  assumes "JSON_parse p msg = Some data"
    and "member data ''event'' = JStr ''start''"
    and "\<not> nullish (member data ''start'')"
  shows "streamSid (on_ws_message p s msg) = member (member data ''start'') ''streamSid''"
proof -
  from assms(2) have d: "\<not> nullish data" by (rule member_JStr_not_nullish)
  from assms d show ?thesis
    by (simp add: on_ws_message_def ws_message_try_def console_error_def console_log_def Let_def
        split: sum.splits)
qed

text \<open>
  C3, as the code has it. \<^verbatim>\<open>streamSid\<close> is modified by carrier frames tagged \<^verbatim>\<open>start\<close> and
  by nothing else: a run without such a frame leaves it as it was, and every \<^verbatim>\<open>start\<close>
  frame that carries a \<^verbatim>\<open>start\<close> object assigns that object's \<^verbatim>\<open>streamSid\<close> to it, whatever
  it held before.
\<close>

theorem streamSid_set_by_start_only:
  "((\<forall>ev\<in>set evs. \<not> is_start_frame p ev) \<longrightarrow> streamSid (run p s evs) = streamSid s) \<and>
   (JSON_parse p msg = Some data \<and> member data ''event'' = JStr ''start'' \<and>
      \<not> nullish (member data ''start'') \<longrightarrow>
    streamSid (on_ws_message p s msg) = member (member data ''start'') ''streamSid'')"
  using streamSid_run_other [of evs p s] streamSid_start [of p msg data s] by blast

theorem streamSid_set_by_start_only_witness:
  \<open>\<not> is_start_frame sample_platform Agent_open \<and>
   \<not> is_start_frame sample_platform
     (Carrier_message ''{"event":"media","media":{"payload":"QUI="}}'') \<and>
   \<not> is_start_frame sample_platform (Agent_message ''{"type":"interruption"}'') \<and>
   \<not> is_start_frame sample_platform (Carrier_message ''{"event":"stop"}'') \<and>
   streamSid (run sample_platform (streaming\<lparr>streamSid := JStr ''MZ1''\<rparr>)
     [Agent_open, Carrier_message ''{"event":"media","media":{"payload":"QUI="}}'',
      Agent_message ''{"type":"interruption"}'', Carrier_message ''{"event":"stop"}'']) = JStr ''MZ1'' \<and>
   JSON_parse sample_platform ''{"event":"start","start":{"streamSid":"MZ1"}}'' =
     Some (JObj [(''event'', JStr ''start''), (''start'', JObj [(''streamSid'', JStr ''MZ1'')])]) \<and>
   streamSid (on_ws_message sample_platform media_stream
     ''{"event":"start","start":{"streamSid":"MZ1"}}'') = JStr ''MZ1''\<close>
proof -
  have 1: \<open>\<forall>ev\<in>set [Agent_open, Carrier_message ''{"event":"media","media":{"payload":"QUI="}}'',
               Agent_message ''{"type":"interruption"}'', Carrier_message ''{"event":"stop"}''].
      \<not> is_start_frame sample_platform ev\<close>
    by (simp add: sample_platform_def sample_parse_def)
  have 2: \<open>JSON_parse sample_platform ''{"event":"start","start":{"streamSid":"MZ1"}}'' =
     Some (JObj [(''event'', JStr ''start''), (''start'', JObj [(''streamSid'', JStr ''MZ1'')])])\<close>
    by (simp add: sample_platform_def sample_parse_def)
  from 1 2 streamSid_set_by_start_only
     [of \<open>[Agent_open, Carrier_message ''{"event":"media","media":{"payload":"QUI="}}'',
               Agent_message ''{"type":"interruption"}'', Carrier_message ''{"event":"stop"}'']\<close>
         sample_platform \<open>streaming\<lparr>streamSid := JStr ''MZ1''\<rparr>\<close>]
     streamSid_set_by_start_only
     [of \<open>[]\<close> sample_platform media_stream \<open>''{"event":"start","start":{"streamSid":"MZ1"}}''\<close>
         \<open>JObj [(''event'', JStr ''start''), (''start'', JObj [(''streamSid'', JStr ''MZ1'')])]\<close>]
  show ?thesis by simp
qed

text \<open>
  C3 as stated says that the identifier, once set, is never reassigned. A second
  \<^verbatim>\<open>start\<close> frame on the same connection overwrites it.
\<close>

theorem streamSid_reassigned_counterexample:
  \<open>streamSid (run sample_platform media_stream
      [Carrier_message ''{"event":"start","start":{"streamSid":"MZ1"}}'']) = JStr ''MZ1'' \<and>
   streamSid (run sample_platform media_stream
      [Carrier_message ''{"event":"start","start":{"streamSid":"MZ1"}}'',
       Carrier_message ''{"event":"start","start":{"streamSid":"MZ2"}}'']) = JStr ''MZ2''\<close>
  by (simp add: run_def on_ws_message_def ws_message_try_def sample_platform_def sample_parse_def
      console_log_def media_stream_def)

section \<open>Agent to carrier\<close>

text \<open>A \<^verbatim>\<open>ping\<close> frame with a non-empty identifier reaches \<^verbatim>\<open>elevenLabsWs.send\<close> with the
  \<^verbatim>\<open>pong\<close> frame, in every state of the session.\<close>

lemma elevenLabsWs_message_try_ping:
  assumes "JSON_parse p data = Some message"
    and "member message ''type'' = JStr ''ping''"
    and "member (member message ''ping_event'') ''event_id'' = JStr x"
    and "x \<noteq> []"
  shows "elevenLabsWs_message_try p s data =
         elevenLabsWs_send
           (JSON_stringify p (JObj [(''type'', JStr ''pong''), (''event_id'', JStr x)])) s"
proof -
  from assms(2) have d: "\<not> nullish message" by (rule member_JStr_not_nullish)
  from assms(3) have o: "opt_member (member message ''ping_event'') ''event_id'' = JStr x"
    by (rule member_JStr_opt)
  from assms d o show ?thesis
    by (simp add: elevenLabsWs_message_try_def)
qed

text \<open>Where the Agent Leg is not \<^verbatim>\<open>OPEN\<close> no \<^verbatim>\<open>pong\<close> leaves: on a socket that is closing or
  closed the frame is discarded, on one that is still connecting \<^verbatim>\<open>send\<close> throws and the
  \<^verbatim>\<open>catch\<close> logs the error.\<close>

lemma ping_when_not_open:
  assumes "JSON_parse p data = Some message"
    and "member message ''type'' = JStr ''ping''"
    and "member (member message ''ping_event'') ''event_id'' = JStr x"
    and "x \<noteq> []"
    and "elevenLabsWs_readyState s \<noteq> OPEN"
  shows "elevenLabsWs_sent (on_elevenLabsWs_message p s data) = elevenLabsWs_sent s"
    and "elevenLabsWs_readyState s = CONNECTING \<Longrightarrow>
         on_elevenLabsWs_message p s data = console_error ''[II] Parse error:'' OtherError s"
    and "elevenLabsWs_readyState s \<noteq> CONNECTING \<Longrightarrow> on_elevenLabsWs_message p s data = s"
  using assms(5)
  by (simp_all add: on_elevenLabsWs_message_def
      elevenLabsWs_message_try_ping [OF assms(1) assms(2) assms(3) assms(4)]
      elevenLabsWs_send_def console_error_def split: readyState.splits)

text \<open>
  C4, as the code has it. The \<^verbatim>\<open>ping\<close> branch is guarded by the truthiness of the event
  identifier, and its \<^verbatim>\<open>send\<close> is not guarded by the socket's \<^verbatim>\<open>readyState\<close>. For every
  non-empty identifier string \<open>x\<close>, a frame \<^verbatim>\<open>{type:"ping", ping_event:{event_id:x}}\<close>
  received while the Agent Leg is \<^verbatim>\<open>OPEN\<close> yields exactly one frame
  \<^verbatim>\<open>{type:"pong", event_id:x}\<close> sent on the Agent Leg, whether \<^verbatim>\<open>streamSid\<close> is set or not,
  and nothing is sent to the Carrier Leg.
\<close>

theorem ping_answered:
  assumes "JSON_parse p data = Some message"
    and "member message ''type'' = JStr ''ping''"
    and "member (member message ''ping_event'') ''event_id'' = JStr x"
    and "x \<noteq> []"
    and "elevenLabsWs_readyState s = OPEN"
  shows "on_elevenLabsWs_message p s data =
           s\<lparr>elevenLabsWs_sent := elevenLabsWs_sent s @
                [JSON_stringify p (JObj [(''type'', JStr ''pong''), (''event_id'', JStr x)])]\<rparr> \<and>
         ws_sent (on_elevenLabsWs_message p s data) = ws_sent s"
  using assms(5)
  by (simp add: on_elevenLabsWs_message_def
      elevenLabsWs_message_try_ping [OF assms(1) assms(2) assms(3) assms(4)]
      elevenLabsWs_send_def)

theorem ping_answered_witness:
  \<open>JSON_parse sample_platform ''{"type":"ping","ping_event":{"event_id":"x"}}'' =
     Some (JObj [(''type'', JStr ''ping''), (''ping_event'', JObj [(''event_id'', JStr ''x'')])]) \<and>
   ''x'' \<noteq> [] \<and>
   elevenLabsWs_readyState streaming = OPEN \<and>
   streamSid streaming = JNull \<and>
   elevenLabsWs_sent (on_elevenLabsWs_message sample_platform streaming
     ''{"type":"ping","ping_event":{"event_id":"x"}}'') = [''{"type":"pong","event_id":"x"}''] \<and>
   ws_sent (on_elevenLabsWs_message sample_platform streaming
     ''{"type":"ping","ping_event":{"event_id":"x"}}'') = [] \<and>
   elevenLabsWs_sent (on_elevenLabsWs_message sample_platform (streaming\<lparr>streamSid := JStr ''MZ1''\<rparr>)
     ''{"type":"ping","ping_event":{"event_id":"x"}}'') = [''{"type":"pong","event_id":"x"}'']\<close>
proof -
  have parse: \<open>JSON_parse sample_platform ''{"type":"ping","ping_event":{"event_id":"x"}}'' =
     Some (JObj [(''type'', JStr ''ping''), (''ping_event'', JObj [(''event_id'', JStr ''x'')])])\<close>
    by (simp add: sample_platform_def sample_parse_def)
  have str: \<open>JSON_stringify sample_platform (JObj [(''type'', JStr ''pong''), (''event_id'', JStr ''x'')]) =
      ''{"type":"pong","event_id":"x"}''\<close>
    by (simp add: sample_platform_def sample_stringify_def)
  have opn: "elevenLabsWs_readyState streaming = OPEN"
    by (simp add: streaming_def)
  have opn': "elevenLabsWs_readyState (streaming\<lparr>streamSid := JStr ''MZ1''\<rparr>) = OPEN"
    by (simp add: streaming_def)
  from ping_answered [OF parse _ _ _ opn, of "''x''"]
    ping_answered [OF parse _ _ _ opn', of "''x''"] str parse opn
  show ?thesis
    by (simp add: streaming_def media_stream_def)
qed

text \<open>
  C4 as stated speaks of every identifier string and every session state. The empty
  string is falsy: the ping is not answered, and the session is left as it was. And
  once a \<^verbatim>\<open>stop\<close> frame has called \<^verbatim>\<open>close()\<close> on the Agent Leg, the socket is \<^verbatim>\<open>CLOSING\<close>: a
  ping that still arrives is handed to \<^verbatim>\<open>send\<close>, which discards the \<^verbatim>\<open>pong\<close>.
\<close>

theorem ping_empty_id_counterexample:
  \<open>JSON_parse sample_platform ''{"type":"ping","ping_event":{"event_id":""}}'' =
     Some (JObj [(''type'', JStr ''ping''), (''ping_event'', JObj [(''event_id'', JStr [])])]) \<and>
   on_elevenLabsWs_message sample_platform streaming
     ''{"type":"ping","ping_event":{"event_id":""}}'' = streaming \<and>
   elevenLabsWs_sent (on_elevenLabsWs_message sample_platform streaming
     ''{"type":"ping","ping_event":{"event_id":""}}'') = [] \<and>
   elevenLabsWs_readyState
     (run sample_platform streaming [Carrier_message ''{"event":"stop"}'']) = CLOSING \<and>
   elevenLabsWs_sent
     (run sample_platform streaming
       [Carrier_message ''{"event":"stop"}'',
        Agent_message ''{"type":"ping","ping_event":{"event_id":"x"}}'']) = []\<close>
  by (simp add: run_def on_elevenLabsWs_message_def elevenLabsWs_message_try_def
      on_ws_message_def ws_message_try_def elevenLabsWs_close_def elevenLabsWs_send_def
      sample_platform_def sample_parse_def opt_member_def streaming_def media_stream_def)

section \<open>Carrier frames that are not forwarded\<close>

text \<open>
  C5. A \<^verbatim>\<open>media\<close> frame handled while the Agent Leg's \<^verbatim>\<open>readyState\<close> is not \<^verbatim>\<open>OPEN\<close> falls through
  every branch: the \<^verbatim>\<open>try\<close> block completes without an exception and the session is what
  it was, so nothing is sent, nothing is kept for later and nothing is logged. Both
  variants of the handler agree.
\<close>

theorem media_dropped_when_not_open:
  assumes "JSON_parse p msg = Some data"
    and "member data ''event'' = JStr ''media''"
    and "elevenLabsWs_readyState s \<noteq> OPEN"
  shows "ws_message_try p s msg = Normal s \<and> on_ws_message p s msg = s \<and>
         on_ws_message_switch p s msg = s"
proof -
  from assms(2) have "\<not> nullish data" by (rule member_JStr_not_nullish)
  with assms have "ws_message_try p s msg = Normal s"
    by (simp add: ws_message_try_def)
  then show ?thesis
    by (simp add: on_ws_message_def on_ws_message_switch_def ws_message_switch_try_eq)
qed

theorem media_dropped_when_not_open_witness:
  \<open>JSON_parse sample_platform ''{"event":"media","media":{"payload":"QUI="}}'' =
     Some (JObj [(''event'', JStr ''media''), (''media'', JObj [(''payload'', JStr ''QUI='')])]) \<and>
   elevenLabsWs_readyState media_stream \<noteq> OPEN \<and>
   on_ws_message sample_platform media_stream ''{"event":"media","media":{"payload":"QUI="}}'' =
     media_stream \<and>
   elevenLabsWs_sent
     (on_ws_message sample_platform media_stream ''{"event":"media","media":{"payload":"QUI="}}'') = []\<close>
proof -
  have parse: \<open>JSON_parse sample_platform ''{"event":"media","media":{"payload":"QUI="}}'' =
     Some (JObj [(''event'', JStr ''media''), (''media'', JObj [(''payload'', JStr ''QUI='')])])\<close>
    by (simp add: sample_platform_def sample_parse_def)
  have closed: "elevenLabsWs_readyState media_stream \<noteq> OPEN"
    by (simp add: media_stream_def)
  from media_dropped_when_not_open [OF parse _ closed] parse closed show ?thesis
    by (simp add: media_stream_def)
qed

text \<open>
  C6. A \<^verbatim>\<open>stop\<close> frame calls \<^verbatim>\<open>close()\<close> on the Agent Leg, which is then closing or closed,
  and does nothing else: the Carrier Leg's \<^verbatim>\<open>readyState\<close>, the frames sent on either leg
  and \<^verbatim>\<open>streamSid\<close> are what they were.
\<close>

theorem stop_closes_agent_leg:
  assumes "JSON_parse p msg = Some data"
    and "member data ''event'' = JStr ''stop''"
  shows "on_ws_message p s msg =
           s\<lparr>elevenLabsWs_readyState := close_readyState (elevenLabsWs_readyState s)\<rparr> \<and>
         elevenLabsWs_readyState (on_ws_message p s msg) \<in> {CLOSING, CLOSED} \<and>
         ws_readyState (on_ws_message p s msg) = ws_readyState s \<and>
         ws_sent (on_ws_message p s msg) = ws_sent s \<and>
         elevenLabsWs_sent (on_ws_message p s msg) = elevenLabsWs_sent s \<and>
         streamSid (on_ws_message p s msg) = streamSid s"
proof -
  from assms(2) have "\<not> nullish data" by (rule member_JStr_not_nullish)
  with assms have "on_ws_message p s msg =
      s\<lparr>elevenLabsWs_readyState := close_readyState (elevenLabsWs_readyState s)\<rparr>"
    by (simp add: on_ws_message_def ws_message_try_def elevenLabsWs_close_def)
  then show ?thesis
    using close_readyState_closed [of "elevenLabsWs_readyState s"] by simp
qed

theorem stop_closes_agent_leg_witness:
  \<open>JSON_parse sample_platform ''{"event":"stop"}'' = Some (JObj [(''event'', JStr ''stop'')]) \<and>
   on_ws_message sample_platform (streaming\<lparr>streamSid := JStr ''MZ1''\<rparr>) ''{"event":"stop"}'' =
     streaming\<lparr>streamSid := JStr ''MZ1'', elevenLabsWs_readyState := CLOSING\<rparr>\<close>
proof -
  have parse: \<open>JSON_parse sample_platform ''{"event":"stop"}'' =
      Some (JObj [(''event'', JStr ''stop'')])\<close>
    by (simp add: sample_platform_def sample_parse_def)
  from stop_closes_agent_leg [OF parse, of \<open>streaming\<lparr>streamSid := JStr ''MZ1''\<rparr>\<close>] parse
  show ?thesis
    by (simp add: streaming_def media_stream_def)
qed

section \<open>Malformed frames\<close>

text \<open>No handler reads the console: what the peers see after an event depends only on what
  they saw before it.\<close>

lemma relay_state_eq_console: "relay_state s = relay_state t \<Longrightarrow> t = s\<lparr>console := console t\<rparr>"
  by (cases s, cases t) (simp add: relay_state_def)

lemma relay_state_ws_message_console:
  "relay_state (on_ws_message p (s\<lparr>console := c\<rparr>) msg) = relay_state (on_ws_message p s msg)"
  by (simp add: relay_state_def on_ws_message_def ws_message_try_def console_error_def
        console_log_def elevenLabsWs_send_def elevenLabsWs_close_def Let_def
        split: option.splits sum.splits readyState.splits)

lemma relay_state_elevenLabsWs_message_console:
  "relay_state (on_elevenLabsWs_message p (s\<lparr>console := c\<rparr>) data) =
   relay_state (on_elevenLabsWs_message p s data)"
  by (simp add: relay_state_def on_elevenLabsWs_message_def elevenLabsWs_message_try_def
        console_error_def elevenLabsWs_send_def ws_send_def
        split: option.splits readyState.splits)

lemma relay_state_console: "relay_state (s\<lparr>console := c\<rparr>) = relay_state s"
  by (simp add: relay_state_def)

lemma relay_state_deliver_console:
  "relay_state (deliver p (s\<lparr>console := c\<rparr>) ev) = relay_state (deliver p s ev)"
proof (cases ev)
  case (Carrier_message msg)
  then show ?thesis by (simp add: relay_state_ws_message_console relay_state_console)
next
  case (Agent_message data)
  then show ?thesis by (simp add: relay_state_elevenLabsWs_message_console relay_state_console)
next
  case Carrier_close
  then show ?thesis
    by (simp add: relay_state_def on_ws_close_def elevenLabsWs_close_def)
next
  case Agent_open
  then show ?thesis
    by (simp add: relay_state_def on_elevenLabsWs_open_def console_log_def)
next
  case (Agent_error err)
  then show ?thesis
    by (simp add: relay_state_def on_elevenLabsWs_error_def console_error_def)
next
  case Agent_close
  then show ?thesis
    by (simp add: relay_state_def on_elevenLabsWs_close_def console_log_def)
qed

lemma relay_state_deliver_cong:
  assumes "relay_state s = relay_state t"
  shows "relay_state (deliver p s ev) = relay_state (deliver p t ev)"
proof -
  from assms have "t = s\<lparr>console := console t\<rparr>" by (rule relay_state_eq_console)
  then have "relay_state (deliver p t ev) = relay_state (deliver p (s\<lparr>console := console t\<rparr>) ev)"
    by simp
  then show ?thesis by (simp only: relay_state_deliver_console)
qed

lemma relay_state_run_cong:
  "relay_state s = relay_state t \<Longrightarrow> relay_state (run p s evs) = relay_state (run p t evs)"
  unfolding run_def
proof (induction evs arbitrary: s t)
  case Nil
  then show ?case by simp
next
  case (Cons ev evs)
  from Cons.prems have "relay_state (deliver p s ev) = relay_state (deliver p t ev)"
    by (rule relay_state_deliver_cong)
  then have "relay_state (foldl (deliver p) (deliver p s ev) evs) =
             relay_state (foldl (deliver p) (deliver p t ev) evs)"
    by (rule Cons.IH)
  then show ?case by (simp only: foldl.simps)
qed

lemma relay_state_console_error: "relay_state (console_error text err s) = relay_state s"
  by (simp add: relay_state_def console_error_def)

text \<open>
  C7. A message that \<^verbatim>\<open>JSON.parse\<close> rejects, on either leg, ends in the handler's \<^verbatim>\<open>catch\<close>:
  the handler returns, having written one error line and nothing else, so no frame is
  sent, and \<^verbatim>\<open>streamSid\<close> and both sockets are unchanged. Every run of later events then
  shows the peers what it would have shown them without the malformed message.
\<close>

theorem malformed_frame_dropped:
  assumes "JSON_parse p bad = None"
  shows "on_ws_message p s bad =
           s\<lparr>console := console s @ [Error ''[Twilio] Error:'' SyntaxError]\<rparr> \<and>
         on_elevenLabsWs_message p s bad =
           s\<lparr>console := console s @ [Error ''[II] Parse error:'' SyntaxError]\<rparr> \<and>
         relay_state (on_ws_message p s bad) = relay_state s \<and>
         relay_state (on_elevenLabsWs_message p s bad) = relay_state s \<and>
         relay_state (run p (on_ws_message p s bad) evs) = relay_state (run p s evs) \<and>
         relay_state (run p (on_elevenLabsWs_message p s bad) evs) = relay_state (run p s evs)"
proof -
  from assms have c: "on_ws_message p s bad = console_error ''[Twilio] Error:'' SyntaxError s"
    by (simp add: on_ws_message_def ws_message_try_def)
  from assms have a: "on_elevenLabsWs_message p s bad =
      console_error ''[II] Parse error:'' SyntaxError s"
    by (simp add: on_elevenLabsWs_message_def elevenLabsWs_message_try_def)
  have rc: "relay_state (on_ws_message p s bad) = relay_state s"
    by (simp only: c relay_state_console_error)
  have ra: "relay_state (on_elevenLabsWs_message p s bad) = relay_state s"
    by (simp only: a relay_state_console_error)
  have c': "on_ws_message p s bad =
      s\<lparr>console := console s @ [Error ''[Twilio] Error:'' SyntaxError]\<rparr>"
    by (simp only: c console_error_def)
  have a': "on_elevenLabsWs_message p s bad =
      s\<lparr>console := console s @ [Error ''[II] Parse error:'' SyntaxError]\<rparr>"
    by (simp only: a console_error_def)
  from c' a' rc ra relay_state_run_cong [OF rc, of p evs] relay_state_run_cong [OF ra, of p evs]
  show ?thesis
    by (intro conjI)
qed

theorem malformed_frame_dropped_witness:
  \<open>JSON_parse sample_platform ''{"event":'' = None \<and>
   on_ws_message sample_platform streaming ''{"event":'' =
     streaming\<lparr>console := console streaming @ [Error ''[Twilio] Error:'' SyntaxError]\<rparr> \<and>
   elevenLabsWs_sent (run sample_platform (on_ws_message sample_platform streaming ''{"event":'')
     [Carrier_message ''{"event":"media","media":{"payload":"QUI="}}'']) =
     [''{"user_audio_chunk":"QUI="}'']\<close>
proof -
  let ?bad = \<open>''{"event":''\<close>
  let ?evs = \<open>[Carrier_message ''{"event":"media","media":{"payload":"QUI="}}'']\<close>
  have parse: "JSON_parse sample_platform ?bad = None"
    by (simp add: sample_platform_def sample_parse_def)
  have after: \<open>elevenLabsWs_sent (run sample_platform streaming ?evs) =
     [''{"user_audio_chunk":"QUI="}'']\<close>
    by (simp add: run_def on_ws_message_def ws_message_try_def sample_platform_def
      sample_parse_def sample_stringify_def
      streaming_def media_stream_def elevenLabsWs_send_def b64_decode_def b64_sextets_def
      List.map_filter_simps unbase64_def b64_alphabet_def b64_char_def)
  note inst = malformed_frame_dropped [OF parse, of streaming ?evs]
  from inst have logged: "on_ws_message sample_platform streaming ?bad =
     streaming\<lparr>console := console streaming @ [Error ''[Twilio] Error:'' SyntaxError]\<rparr>"
    by (rule conjunct1)
  from inst have "relay_state (run sample_platform
      (on_ws_message sample_platform streaming ?bad) ?evs) =
     relay_state (run sample_platform streaming ?evs)"
    by (rule conjunct2 [THEN conjunct2, THEN conjunct2, THEN conjunct2, THEN conjunct1])
  then have "elevenLabsWs_sent (run sample_platform
      (on_ws_message sample_platform streaming ?bad) ?evs) =
     elevenLabsWs_sent (run sample_platform streaming ?evs)"
    by (simp only: relay_state_def prod.inject)
  with after have \<open>elevenLabsWs_sent (run sample_platform
      (on_ws_message sample_platform streaming ?bad) ?evs) = [''{"user_audio_chunk":"QUI="}'']\<close>
    by simp
  with parse logged show ?thesis by (intro conjI)
qed

section \<open>Agent frames that are forwarded\<close>





section \<open>A start frame without its start object\<close>

text \<open>
  C10. A frame tagged \<^verbatim>\<open>start\<close> that has no \<^verbatim>\<open>start\<close> property throws \<^verbatim>\<open>TypeError\<close> when
  \<^verbatim>\<open>data.start.streamSid\<close> is read, before the assignment: the \<^verbatim>\<open>catch\<close> writes one error
  line, and \<^verbatim>\<open>streamSid\<close>, both sockets and the frames sent are what they were.
\<close>

theorem start_without_start_object:
  assumes "JSON_parse p msg = Some data"
    and "member data ''event'' = JStr ''start''"
    and "member data ''start'' = JUndefined"
  shows "ws_message_try p s msg = Throw TypeError s \<and>
         on_ws_message p s msg =
           s\<lparr>console := console s @ [Error ''[Twilio] Error:'' TypeError]\<rparr> \<and>
         relay_state (on_ws_message p s msg) = relay_state s"
proof -
  from assms(2) have "\<not> nullish data" by (rule member_JStr_not_nullish)
  with assms have "ws_message_try p s msg = Throw TypeError s"
    by (simp add: ws_message_try_def)
  then show ?thesis
    by (simp add: on_ws_message_def console_error_def relay_state_def)
qed

theorem start_without_start_object_witness:
  \<open>JSON_parse sample_platform ''{"event":"start"}'' = Some (JObj [(''event'', JStr ''start'')]) \<and>
   member (JObj [(''event'', JStr ''start'')]) ''start'' = JUndefined \<and>
   on_ws_message sample_platform (streaming\<lparr>streamSid := JStr ''MZ1''\<rparr>) ''{"event":"start"}'' =
     streaming\<lparr>streamSid := JStr ''MZ1'',
       console := console streaming @ [Error ''[Twilio] Error:'' TypeError]\<rparr>\<close>
proof -
  have parse: \<open>JSON_parse sample_platform ''{"event":"start"}'' =
      Some (JObj [(''event'', JStr ''start'')])\<close>
    by (simp add: sample_platform_def sample_parse_def)
  from start_without_start_object [OF parse, of \<open>streaming\<lparr>streamSid := JStr ''MZ1''\<rparr>\<close>] parse
  show ?thesis
    by (simp add: streaming_def media_stream_def)
qed

end
